theory Spec2Isabelle
  imports Complex_Main "HOL-Library.AList" "HOL-Library.Sublist"
begin

section \<open>Values of the host language\<close>

text \<open>
  Contributions reach \<^verbatim>\<open>commandsExtensionPoint.ts\<close> as loosely typed values read
  from extension manifests. A value is \<^verbatim>\<open>undefined\<close>, \<^verbatim>\<open>null\<close>, a boolean, a number,
  a string, an array or an object. An object is the list of its own properties; a property
  is looked up by \<open>map_of\<close> and written by \<open>AList.update\<close>, which agree on the first
  binding of a name. A number is an IEEE double: the module only ever tests a number for
  truthiness, so the two zeros are one value \<open>Finite 0\<close>.
\<close>

datatype number = NaN | PosInfinity | NegInfinity | Finite real

datatype json =
    JUndefined
  | JNull
  | JBool bool
  | JNum number
  | JStr string
  | JArr "json list"
  | JObj "(string \<times> json) list"

datatype error = TypeError

text \<open>The \<^verbatim>\<open>typeof\<close> operator.\<close>

fun typeof :: "json \<Rightarrow> string" where
  "typeof JUndefined = ''undefined''"
| "typeof JNull = ''object''"
| "typeof (JBool b) = ''boolean''"
| "typeof (JNum n) = ''number''"
| "typeof (JStr s) = ''string''"
| "typeof (JArr xs) = ''object''"
| "typeof (JObj fs) = ''object''"

text \<open>Conversion to boolean, as done by \<^verbatim>\<open>!x\<close> and \<^verbatim>\<open>x && y\<close>.\<close>

fun truthy :: "json \<Rightarrow> bool" where
  "truthy JUndefined = False"
| "truthy JNull = False"
| "truthy (JBool b) = b"
| "truthy (JNum NaN) = False"
| "truthy (JNum (Finite x)) = (x \<noteq> 0)"
| "truthy (JNum n) = True"
| "truthy (JStr s) = (s \<noteq> [])"
| "truthy (JArr xs) = True"
| "truthy (JObj fs) = True"

fun isArray :: "json \<Rightarrow> bool" where
  "isArray (JArr xs) = True"
| "isArray v = False"

fun elements :: "json \<Rightarrow> json list" where
  "elements (JArr xs) = xs"
| "elements v = []"

text \<open>
  Reading a property \<^verbatim>\<open>v.k\<close>. The module reads the names \<^verbatim>\<open>command\<close>, \<^verbatim>\<open>title\<close>,
  \<^verbatim>\<open>category\<close>, \<^verbatim>\<open>icon\<close>, \<^verbatim>\<open>dark\<close> and \<^verbatim>\<open>light\<close>; none of them is a built-in property
  of a string, a number, a boolean or an array, so on those values the read gives
  \<^verbatim>\<open>undefined\<close>. On \<^verbatim>\<open>null\<close> and \<^verbatim>\<open>undefined\<close> the read throws a \<^verbatim>\<open>TypeError\<close>.
\<close>

fun property :: "json \<Rightarrow> string \<Rightarrow> json" where
  "property (JObj fs) k = (case map_of fs k of Some v \<Rightarrow> v | None \<Rightarrow> JUndefined)"
| "property v k = JUndefined"

fun get :: "json \<Rightarrow> string \<Rightarrow> error + json" where
  "get JUndefined k = Inl TypeError"
| "get JNull k = Inl TypeError"
| "get v k = Inr (property v k)"

text \<open>Writing a property \<^verbatim>\<open>v.k = x\<close> of an object.\<close>

fun set_property :: "json \<Rightarrow> string \<Rightarrow> json \<Rightarrow> json" where
  "set_property (JObj fs) k x = JObj (AList.update k x fs)"
| "set_property v k x = v"

text \<open>The string held by a value; applied only under a \<^verbatim>\<open>typeof v === 'string'\<close> guard.\<close>

fun string_of :: "json \<Rightarrow> string" where
  "string_of (JStr s) = s"
| "string_of v = []"

text \<open>Sequencing of computations that may throw.\<close>

fun and_then :: "error + 'a \<Rightarrow> ('a \<Rightarrow> error + 'b) \<Rightarrow> error + 'b" where
  "and_then (Inl e) f = Inl e"
| "and_then (Inr x) f = f x"

section \<open>The contribution model\<close>

text \<open>
  \<^verbatim>\<open>isThemableIcon\<close>: an object that is not \<^verbatim>\<open>null\<close> and whose \<^verbatim>\<open>dark\<close> and \<^verbatim>\<open>light\<close>
  are strings. The conjunction stops at \<^verbatim>\<open>null\<close>, so no property of \<^verbatim>\<open>null\<close> is read.
\<close>

definition isThemableIcon :: "json \<Rightarrow> bool" where
  "isThemableIcon thing \<longleftrightarrow>
     typeof thing = ''object'' \<and> truthy thing
     \<and> typeof (property thing ''dark'') = ''string''
     \<and> typeof (property thing ''light'') = ''string''"

text \<open>
  The user of the extension point (\<^verbatim>\<open>IExtensionPointUser\<close>): the folder of the
  extension (\<^verbatim>\<open>description.extensionFolderPath\<close>), the declared value (the member
  \<^verbatim>\<open>value\<close>) and the message collector, here the list of the messages it has received
  through \<^verbatim>\<open>collector.error\<close>, oldest first.
\<close>

record user =
  extensionFolderPath :: string
  declared :: json
  collector :: "string list"

definition collector_error :: "string \<Rightarrow> user \<Rightarrow> user" where
  "collector_error msg u = u\<lparr>collector := collector u @ [msg]\<rparr>"

text \<open>
  Modelled from the spec: \<^verbatim>\<open>localize\<close> of \<^verbatim>\<open>vs/nls\<close> is not among the sources. A
  message is the default text given at the call, with the placeholder \<^verbatim>\<open>{0}\<close> replaced
  by the argument, so that the message about a mandatory property cites that property.
\<close>

definition msg_optwhere :: string where
  "msg_optwhere = ''property `where` can be omitted or must be a valid enum value''"

definition msg_requirefilter :: string where
  "msg_requirefilter =
     ''property `when` is mandatory and must be a string or like `{language, scheme, pattern}`''"

definition msg_opticon :: string where
  "msg_opticon =
     ''property `icon` can be omitted or must be either a string or a literal like `{dark, light}`''"

definition msg_nonempty :: string where
  "msg_nonempty = ''expected non-empty value.''"

definition msg_requirestring :: "string \<Rightarrow> string" where
  "msg_requirestring p = ''property `'' @ p @ ''` is mandatory and must be of type `string`''"

definition msg_optstring :: "string \<Rightarrow> string" where
  "msg_optstring p = ''property `'' @ p @ ''` can be omitted or must be of type `string`''"

text \<open>A message mentions a word when the word occurs in it.\<close>

fun mentions :: "string \<Rightarrow> string \<Rightarrow> bool" where
  "mentions w [] = (w = [])"
| "mentions w (c # cs) = (take (length w) (c # cs) = w \<or> mentions w cs)"

section \<open>Validation\<close>

definition locations :: "string list" where
  "locations = [''editor/primary'', ''editor/secondary'', ''explorer/context'']"

text \<open>
  \<^verbatim>\<open>Array.prototype.indexOf\<close> on an array of strings: the position of the first element
  strictly equal to the value, or \<open>-1\<close>. Only a string is strictly equal to a string.
\<close>

fun index_from :: "int \<Rightarrow> string list \<Rightarrow> string \<Rightarrow> int" where
  "index_from i [] s = -1"
| "index_from i (x # xs) s = (if x = s then i else index_from (i + 1) xs s)"

fun indexOf :: "string list \<Rightarrow> json \<Rightarrow> int" where
  "indexOf xs (JStr s) = index_from 0 xs s"
| "indexOf xs v = -1"

text \<open>
  \<^verbatim>\<open>isValidWhere\<close>. \<^verbatim>\<open>Array.prototype.every\<close> stops at the first element for which the
  callback returns false.
\<close>

fun isValidWhere :: "json \<Rightarrow> user \<Rightarrow> bool \<times> user"
  and every_isValidWhere :: "json list \<Rightarrow> user \<Rightarrow> bool \<times> user" where
  "isValidWhere (JArr ws) u = every_isValidWhere ws u"
| "isValidWhere w u =
     (if indexOf locations w < 0 then (False, collector_error msg_optwhere u)
      else (True, u))"
| "every_isValidWhere [] u = (True, u)"
| "every_isValidWhere (w # ws) u =
     (case isValidWhere w u of
        (True, u') \<Rightarrow> every_isValidWhere ws u'
      | (False, u') \<Rightarrow> (False, u'))"

text \<open>
  \<^verbatim>\<open>isValidWhen\<close>. The loop over an array returns false at the first element that does
  not validate; \<open>loop_isValidWhen\<close> gives \<open>True\<close> when the loop has returned. When the
  loop ends without returning, control leaves the \<^verbatim>\<open>if\<close> and reaches the report below it.
\<close>

fun isValidWhen :: "json \<Rightarrow> user \<Rightarrow> bool \<times> user"
  and loop_isValidWhen :: "json list \<Rightarrow> user \<Rightarrow> bool \<times> user" where
  "isValidWhen (JArr ws) u =
     (case loop_isValidWhen ws u of
        (True, u') \<Rightarrow> (False, u')
      | (False, u') \<Rightarrow> (False, collector_error msg_requirefilter u'))"
| "isValidWhen w u =
     (if typeof w = ''string'' \<or> typeof w = ''object'' then (True, u)
      else (False, collector_error msg_requirefilter u))"
| "loop_isValidWhen [] u = (False, u)"
| "loop_isValidWhen (w # ws) u =
     (case isValidWhen w u of
        (False, u') \<Rightarrow> (True, u')
      | (True, u') \<Rightarrow> loop_isValidWhen ws u')"

text \<open>
  \<^verbatim>\<open>isValidIcon\<close>. The third test reads \<^verbatim>\<open>icon.dark\<close> as soon as \<^verbatim>\<open>typeof icon\<close> is
  \<^verbatim>\<open>'object'\<close>, which \<^verbatim>\<open>null\<close> satisfies: the read then throws.
\<close>

definition isValidIcon :: "json \<Rightarrow> user \<Rightarrow> error + (bool \<times> user)" where
  "isValidIcon icon u =
     (if typeof icon = ''undefined'' then Inr (True, u)
      else if typeof icon = ''string'' then Inr (True, u)
      else and_then
        (if typeof icon = ''object'' then
           and_then (get icon ''dark'') (\<lambda>dark.
             if typeof dark = ''string'' then
               and_then (get icon ''light'') (\<lambda>light. Inr (typeof light = ''string''))
             else Inr False)
         else Inr False)
        (\<lambda>ok. if ok then Inr (True, u)
               else Inr (False, collector_error msg_opticon u)))"

text \<open>
  \<^verbatim>\<open>isValidCommand\<close>. The function \<^verbatim>\<open>join\<close> of \<^verbatim>\<open>vs/base/common/paths\<close> is imported
  by the module and is a parameter here. The result is the returned boolean, the
  candidate as the call leaves it, and the user with its collector. A themable icon is
  rewritten in place, and the candidate keeps referring to it.
\<close>

definition make_icon_absolute :: "(string \<Rightarrow> string \<Rightarrow> string) \<Rightarrow> json \<Rightarrow> user \<Rightarrow> json" where
  "make_icon_absolute join candidate u =
     (let icon = property candidate ''icon'' in
      if typeof icon = ''string'' then
        set_property candidate ''icon''
          (JStr (join (extensionFolderPath u) (string_of icon)))
      else if isThemableIcon icon then
        (let icon1 = set_property icon ''dark''
               (JStr (join (extensionFolderPath u) (string_of (property icon ''dark''))));
             icon2 = set_property icon1 ''light''
               (JStr (join (extensionFolderPath u) (string_of (property icon1 ''light''))))
         in set_property candidate ''icon'' icon2)
      else candidate)"

definition isValidCommand ::
  "(string \<Rightarrow> string \<Rightarrow> string) \<Rightarrow> json \<Rightarrow> user \<Rightarrow> error + (bool \<times> json \<times> user)" where
  "isValidCommand join candidate u =
     (if \<not> truthy candidate then
        Inr (False, candidate, collector_error msg_nonempty u)
      else and_then (get candidate ''command'') (\<lambda>command.
        if typeof command \<noteq> ''string'' then
          Inr (False, candidate, collector_error (msg_requirestring ''command'') u)
        else and_then (get candidate ''title'') (\<lambda>title.
          if typeof title \<noteq> ''string'' then
            Inr (False, candidate, collector_error (msg_requirestring ''title'') u)
          else and_then (get candidate ''category'') (\<lambda>category.
            if truthy category \<and> typeof category \<noteq> ''string'' then
              Inr (False, candidate, collector_error (msg_optstring ''category'') u)
            else and_then (get candidate ''icon'') (\<lambda>icon.
              and_then (isValidIcon icon u) (\<lambda>(ok, u').
                if \<not> ok then Inr (False, candidate, u')
                else Inr (True, make_icon_absolute join candidate u', u')))))))"

section \<open>The registry and the registration handler\<close>

text \<open>
  The exported array \<^verbatim>\<open>commands\<close>: its elements, and whether \<^verbatim>\<open>Object.freeze\<close> has
  been applied to it. It starts empty and not frozen. \<^verbatim>\<open>push\<close> on a frozen array throws
  a \<^verbatim>\<open>TypeError\<close> and leaves the array as it is.
\<close>

record registry =
  items :: "json list"
  frozen :: bool

definition commands_initial :: registry where
  "commands_initial = \<lparr>items = [], frozen = False\<rparr>"

definition push :: "registry \<Rightarrow> json \<Rightarrow> error + registry" where
  "push reg c = (if frozen reg then Inl TypeError else Inr (reg\<lparr>items := items reg @ [c]\<rparr>))"

definition freeze :: "registry \<Rightarrow> registry" where
  "freeze reg = reg\<lparr>frozen := True\<rparr>"

text \<open>
  The state an attempted \<^verbatim>\<open>push\<close> leaves behind, whether it throws or not, and the same
  for a sequence of attempts.
\<close>

definition attempt_push :: "registry \<Rightarrow> json \<Rightarrow> registry" where
  "attempt_push reg c = (case push reg c of Inl e \<Rightarrow> reg | Inr reg' \<Rightarrow> reg')"

definition attempt_pushes :: "registry \<Rightarrow> json list \<Rightarrow> registry" where
  "attempt_pushes reg cs = foldl attempt_push reg cs"

text \<open>
  \<^verbatim>\<open>handleCommand\<close> and the handler. Each returns the exception that ended it, if any,
  with the user (its collector) and the registry as they are at that moment. The registry
  entry is the candidate object itself, hence the candidate as \<^verbatim>\<open>isValidCommand\<close> left it.
\<close>

definition handleCommand ::
  "(string \<Rightarrow> string \<Rightarrow> string) \<Rightarrow> json \<Rightarrow> user \<Rightarrow> registry \<Rightarrow> error option \<times> user \<times> registry" where
  "handleCommand join command u reg =
     (case isValidCommand join command u of
        Inl e \<Rightarrow> (Some e, u, reg)
      | Inr (ok, command', u') \<Rightarrow>
          if ok then
            (case push reg command' of
               Inl e \<Rightarrow> (Some e, u', reg)
             | Inr reg' \<Rightarrow> (None, u', reg'))
          else (None, u', reg))"

text \<open>The inner loop \<^verbatim>\<open>for (let command of value)\<close>.\<close>

fun handleCommands ::
  "(string \<Rightarrow> string \<Rightarrow> string) \<Rightarrow> json list \<Rightarrow> user \<Rightarrow> registry \<Rightarrow> error option \<times> user \<times> registry" where
  "handleCommands join [] u reg = (None, u, reg)"
| "handleCommands join (c # cs) u reg =
     (case handleCommand join c u reg of
        (Some e, u', reg') \<Rightarrow> (Some e, u', reg')
      | (None, u', reg') \<Rightarrow> handleCommands join cs u' reg')"

text \<open>The body of the outer loop, for one extension.\<close>

definition handleExtension ::
  "(string \<Rightarrow> string \<Rightarrow> string) \<Rightarrow> user \<Rightarrow> registry \<Rightarrow> error option \<times> user \<times> registry" where
  "handleExtension join extension reg =
     (if isArray (declared extension)
      then handleCommands join (elements (declared extension)) extension reg
      else handleCommand join (declared extension) extension reg)"

text \<open>The outer loop \<^verbatim>\<open>for (let extension of extensions)\<close>.\<close>

fun handleExtensions ::
  "(string \<Rightarrow> string \<Rightarrow> string) \<Rightarrow> user list \<Rightarrow> registry \<Rightarrow> error option \<times> user list \<times> registry" where
  "handleExtensions join [] reg = (None, [], reg)"
| "handleExtensions join (x # xs) reg =
     (case handleExtension join x reg of
        (Some e, x', reg') \<Rightarrow> (Some e, x' # xs, reg')
      | (None, x', reg') \<Rightarrow>
          (case handleExtensions join xs reg' of
             (r, xs', reg'') \<Rightarrow> (r, x' # xs', reg'')))"

text \<open>The handler: both loops, then \<^verbatim>\<open>Object.freeze(commands)\<close>.\<close>

definition handler ::
  "(string \<Rightarrow> string \<Rightarrow> string) \<Rightarrow> user list \<Rightarrow> registry \<Rightarrow> error option \<times> user list \<times> registry" where
  "handler join extensions reg =
     (case handleExtensions join extensions reg of
        (Some e, xs', reg') \<Rightarrow> (Some e, xs', reg')
      | (None, xs', reg') \<Rightarrow> (None, xs', freeze reg'))"

text \<open>
  The candidates of an extension in the order the handler visits them, and the registry
  entry a candidate gives when \<^verbatim>\<open>isValidCommand\<close> returns true for it.
\<close>

definition candidates_of :: "user \<Rightarrow> json list" where
  "candidates_of extension =
     (if isArray (declared extension) then elements (declared extension)
      else [declared extension])"

definition accepted :: "(string \<Rightarrow> string \<Rightarrow> string) \<Rightarrow> user \<Rightarrow> json \<Rightarrow> json option" where
  "accepted join u c =
     (case isValidCommand join c u of
        Inr (True, c', u') \<Rightarrow> Some c'
      | _ \<Rightarrow> None)"

definition throws :: "(string \<Rightarrow> string \<Rightarrow> string) \<Rightarrow> user \<Rightarrow> json \<Rightarrow> bool" where
  "throws join u c = (case isValidCommand join c u of Inl e \<Rightarrow> True | Inr r \<Rightarrow> False)"

section \<open>The command action\<close>

text \<open>
  A promise is given by the state it ends in; \<open>Pending\<close> is a promise that never settles.
  The calls made to the two services are recorded in order.
\<close>

datatype 'a promise = Fulfilled 'a | Rejected json | Pending

datatype call = ActivateByEvent string | ExecuteCommand string "json list"

text \<open>
  Modelled from the spec: the promise type of \<^verbatim>\<open>vs/base/common/winjs.base\<close>, whose
  \<^verbatim>\<open>then\<close> the callback uses, is not among the sources. With a success callback only,
  the callback runs once the promise has completed successfully and its outcome, result
  or failure, is the outcome of the whole; a failure of the promise is the failure of the
  whole and the callback does not run. A callback that throws fails the whole.
\<close>

fun then_promise ::
  "'a promise \<Rightarrow> ('a \<Rightarrow> call list \<Rightarrow> (json + 'b promise) \<times> call list) \<Rightarrow> call list
     \<Rightarrow> 'b promise \<times> call list" where
  "then_promise (Fulfilled v) f calls =
     (case f v calls of
        (Inl e, calls') \<Rightarrow> (Rejected e, calls')
      | (Inr p, calls') \<Rightarrow> (p, calls'))"
| "then_promise (Rejected e) f calls = (Rejected e, calls)"
| "then_promise Pending f calls = (Pending, calls)"

text \<open>
  \<^verbatim>\<open>CommandAction\<close>: the constructor reads \<^verbatim>\<open>command.command\<close> and \<^verbatim>\<open>command.title\<close>,
  strings by the type \<^verbatim>\<open>Command\<close>. A service either throws (\<open>Inl\<close>) or returns a promise.
  \<open>actionCallback\<close> is the function stored in \<^verbatim>\<open>_actionCallback\<close>.
\<close>

definition actionCallback ::
  "(string \<Rightarrow> json + unit promise) \<Rightarrow> (string \<Rightarrow> json list \<Rightarrow> json + json promise)
     \<Rightarrow> string \<Rightarrow> json list \<Rightarrow> call list \<Rightarrow> (json + json promise) \<times> call list" where
  "actionCallback activateByEvent executeCommand command args calls =
     (let activationEvent = ''onCommand:'' @ command;
          calls1 = calls @ [ActivateByEvent activationEvent]
      in case activateByEvent activationEvent of
           Inl e \<Rightarrow> (Inl e, calls1)
         | Inr activation \<Rightarrow>
             (case then_promise activation
                     (\<lambda>x cs. (executeCommand command args, cs @ [ExecuteCommand command args]))
                     calls1 of
                (p, calls2) \<Rightarrow> (Inr p, calls2)))"

section \<open>The declared types\<close>








section \<open>Notions used to state the properties\<close>

text \<open>
  The registry entries that a list of candidates of one user gives: for each candidate
  for which \<^verbatim>\<open>isValidCommand\<close> returns true, in order, the candidate as the call left
  it. \<open>all_entries\<close> is the same for a batch, extension after extension.
\<close>

definition entries :: "(string \<Rightarrow> string \<Rightarrow> string) \<Rightarrow> user \<Rightarrow> json list \<Rightarrow> json list" where
  "entries join u cs = List.map_filter (accepted join u) cs"

definition all_entries :: "(string \<Rightarrow> string \<Rightarrow> string) \<Rightarrow> user list \<Rightarrow> json list" where
  "all_entries join extensions =
     concat (map (\<lambda>x. entries join x (candidates_of x)) extensions)"

subsection \<open>Example inputs\<close>

text \<open>
  A stand-in for \<^verbatim>\<open>join\<close> in examples (one separator between the two segments), two
  extensions and a few candidates, among them those of the end-to-end examples of the
  specification.
\<close>

abbreviation example_join :: "string \<Rightarrow> string \<Rightarrow> string" where
  "example_join \<equiv> (\<lambda>root p. root @ ''/'' @ p)"

abbreviation acme :: "json \<Rightarrow> string list \<Rightarrow> user" where
  "acme v msgs \<equiv> \<lparr>extensionFolderPath = ''/ext/acme'', declared = v, collector = msgs\<rparr>"

abbreviation beta :: "json \<Rightarrow> string list \<Rightarrow> user" where
  "beta v msgs \<equiv> \<lparr>extensionFolderPath = ''/ext/beta'', declared = v, collector = msgs\<rparr>"

abbreviation foo_bar :: json where
  "foo_bar \<equiv> JObj [(''command'', JStr ''foo.bar''), (''title'', JStr ''Bar'')]"

abbreviation missing_id :: json where
  "missing_id \<equiv> JObj [(''title'', JStr ''missing id'')]"

abbreviation ext_go :: "json \<Rightarrow> json" where
  "ext_go icon \<equiv> JObj [(''command'', JStr ''ext.go''), (''title'', JStr ''Go''), (''icon'', icon)]"

abbreviation beta_run :: json where
  "beta_run \<equiv> JObj [(''command'', JStr ''beta.run''), (''title'', JStr ''Run'')]"

abbreviation example_batch :: "user list" where
  "example_batch \<equiv>
     [acme (JArr [foo_bar, missing_id, ext_go (JStr ''icons/go.png'')]) [], beta beta_run []]"

section \<open>Auxiliary facts\<close>

lemma get_truthy: "truthy v \<Longrightarrow> get v k = Inr (property v k)"
  by (cases v) simp_all

lemma isValidIcon_eq:
  "isValidIcon icon u =
     (if icon = JNull then Inl TypeError
      else if icon = JUndefined \<or> typeof icon = ''string'' \<or> isThemableIcon icon
      then Inr (True, u)
      else Inr (False, collector_error msg_opticon u))"
  by (cases icon) (simp_all add: isValidIcon_def isThemableIcon_def)

lemma isValidCommand_eq:
  "isValidCommand join c u =
     (if \<not> truthy c then Inr (False, c, collector_error msg_nonempty u)
      else if typeof (property c ''command'') \<noteq> ''string''
      then Inr (False, c, collector_error (msg_requirestring ''command'') u)
      else if typeof (property c ''title'') \<noteq> ''string''
      then Inr (False, c, collector_error (msg_requirestring ''title'') u)
      else if truthy (property c ''category'') \<and> typeof (property c ''category'') \<noteq> ''string''
      then Inr (False, c, collector_error (msg_optstring ''category'') u)
      else if property c ''icon'' = JNull then Inl TypeError
      else if property c ''icon'' = JUndefined \<or> typeof (property c ''icon'') = ''string''
              \<or> isThemableIcon (property c ''icon'')
      then Inr (True, make_icon_absolute join c u, u)
      else Inr (False, c, collector_error msg_opticon u))"
  by (simp add: isValidCommand_def get_truthy isValidIcon_eq)

lemma property_set_property_other:
  "k' \<noteq> k \<Longrightarrow> property (set_property v k x) k' = property v k'"
  by (cases v) (simp_all add: update_conv')



lemma truthy_property_obj: "property c k \<noteq> JUndefined \<Longrightarrow> \<exists>fs. c = JObj fs"
  by (cases c) simp_all

lemma property_truthy: "truthy (property c k) \<Longrightarrow> truthy c"
  by (cases c) simp_all

lemma make_icon_absolute_other:
  "k \<noteq> ''icon'' \<Longrightarrow> property (make_icon_absolute join c u) k = property c k"
  by (simp add: make_icon_absolute_def Let_def property_set_property_other)

lemma isValidCommand_outcomes:
  "isValidCommand join c u = Inl TypeError
   \<or> isValidCommand join c u = Inr (True, make_icon_absolute join c u, u)
   \<or> (\<exists>m. isValidCommand join c u = Inr (False, c, collector_error m u))"
  by (auto simp: isValidCommand_eq)

lemma isValidCommand_command_not_string:
  "truthy c \<Longrightarrow> typeof (property c ''command'') \<noteq> ''string'' \<Longrightarrow>
     isValidCommand join c u = Inr (False, c, collector_error (msg_requirestring ''command'') u)"
  by (simp add: isValidCommand_eq)

lemma accepted_Some:
  "accepted join u v = Some v' \<Longrightarrow> isValidCommand join v u = Inr (True, v', u)"
  using isValidCommand_outcomes [of join v u] by (auto simp: accepted_def)

subsection \<open>The handler\<close>

text \<open>
  Whether \<^verbatim>\<open>isValidCommand\<close> accepts or throws does not depend on what the collector
  already holds, and the entry it leaves depends on the user only through the folder.
\<close>

lemma make_icon_absolute_cong:
  "extensionFolderPath u = extensionFolderPath v \<Longrightarrow>
     make_icon_absolute join c u = make_icon_absolute join c v"
  by (simp add: make_icon_absolute_def Let_def)

lemma accepted_cong:
  "extensionFolderPath u = extensionFolderPath v \<Longrightarrow> accepted join u c = accepted join v c"
  by (simp add: accepted_def isValidCommand_eq make_icon_absolute_cong [of u v])

lemma throws_cong: "throws join u c = throws join v c"
  by (simp add: throws_def isValidCommand_eq)

lemma collector_error_fields [simp]:
  "extensionFolderPath (collector_error m u) = extensionFolderPath u"
  "declared (collector_error m u) = declared u"
  by (simp_all add: collector_error_def)

lemma handleCommand_cases:
  "(throws join u c \<and> handleCommand join c u reg = (Some TypeError, u, reg))
   \<or> (\<exists>c'. accepted join u c = Some c' \<and> frozen reg
         \<and> handleCommand join c u reg = (Some TypeError, u, reg))
   \<or> (\<exists>c'. accepted join u c = Some c' \<and> \<not> frozen reg
         \<and> handleCommand join c u reg = (None, u, reg\<lparr>items := items reg @ [c']\<rparr>))
   \<or> (\<exists>m. \<not> throws join u c \<and> accepted join u c = None
         \<and> handleCommand join c u reg = (None, collector_error m u, reg))"
  using isValidCommand_outcomes [of join c u]
  by (cases "frozen reg") (auto simp: handleCommand_def throws_def accepted_def push_def)

lemma entries_simps:
  "entries join u [] = []"
  "entries join u (c # cs) = (case accepted join u c of None \<Rightarrow> [] | Some c' \<Rightarrow> [c']) @ entries join u cs"
  by (simp_all add: entries_def map_filter_simps split: option.splits)

lemma entries_cong:
  "extensionFolderPath u = extensionFolderPath v \<Longrightarrow> entries join u cs = entries join v cs"
  using accepted_cong [of u v join] by (induction cs) (simp_all add: entries_simps)

lemma handleCommand_general:
  assumes "handleCommand join c u reg = (r, u', reg')"
  shows "extensionFolderPath u' = extensionFolderPath u \<and> frozen reg' = frozen reg
    \<and> (\<exists>new. reg' = reg\<lparr>items := items reg @ new\<rparr> \<and> prefix new (entries join u [c])
          \<and> (r = None \<longrightarrow> new = entries join u [c]))"
proof -
  have same: "reg = reg\<lparr>items := items reg @ []\<rparr>" by simp
  consider
      (thrown) "r = Some TypeError" "u' = u" "reg' = reg"
    | (pushed) c' where "accepted join u c = Some c'" "r = None" "u' = u"
        "reg' = reg\<lparr>items := items reg @ [c']\<rparr>"
    | (dropped) m where "accepted join u c = None" "r = None" "u' = collector_error m u"
        "reg' = reg"
    using handleCommand_cases [of join u c reg] assms by auto
  then show ?thesis
  proof cases
    case thrown
    then show ?thesis using same by (auto intro: exI [of _ "[]"])
  next
    case pushed
    then show ?thesis by (auto simp: entries_simps)
  next
    case dropped
    then show ?thesis using same by (auto simp: entries_simps intro: exI [of _ "[]"])
  qed
qed

lemma handleCommand_returns:
  "\<not> frozen reg \<Longrightarrow> \<not> throws join u c \<Longrightarrow> fst (handleCommand join c u reg) = None"
  using handleCommand_cases [of join u c reg] by auto

lemma handleCommand_command_not_string:
  "truthy c \<Longrightarrow> typeof (property c ''command'') \<noteq> ''string'' \<Longrightarrow>
     handleCommand join c u reg = (None, collector_error (msg_requirestring ''command'') u, reg)"
  by (simp add: handleCommand_def isValidCommand_command_not_string)

lemma handleCommand_accepted:
  "\<not> frozen reg \<Longrightarrow> accepted join u v = Some v' \<Longrightarrow>
     handleCommand join v u reg = (None, u, reg\<lparr>items := items reg @ [v']\<rparr>)"
  by (simp add: handleCommand_def push_def accepted_Some)

lemma handleCommands_general:
  "handleCommands join cs u reg = (r, u', reg') \<Longrightarrow>
   extensionFolderPath u' = extensionFolderPath u \<and> frozen reg' = frozen reg
    \<and> (\<exists>new. reg' = reg\<lparr>items := items reg @ new\<rparr> \<and> prefix new (entries join u cs)
          \<and> (r = None \<longrightarrow> new = entries join u cs))"
proof (induction cs arbitrary: u reg)
  case Nil
  then show ?case by (simp add: entries_simps)
next
  case (Cons c cs)
  obtain r1 u1 reg1 where h: "handleCommand join c u reg = (r1, u1, reg1)"
    by (cases "handleCommand join c u reg") auto
  from handleCommand_general [OF h] obtain new1 where
    f1: "extensionFolderPath u1 = extensionFolderPath u" "frozen reg1 = frozen reg"
    and n1: "reg1 = reg\<lparr>items := items reg @ new1\<rparr>" "prefix new1 (entries join u [c])"
      "r1 = None \<longrightarrow> new1 = entries join u [c]"
    by blast
  have split: "entries join u (c # cs) = entries join u [c] @ entries join u cs"
    by (simp add: entries_simps)
  show ?case
  proof (cases r1)
    case (Some e)
    with h Cons.prems have "r = Some e" "u' = u1" "reg' = reg1" by auto
    with f1 n1 show ?thesis
      unfolding split by (auto intro: prefix_order.trans)
  next
    case None
    with h Cons.prems have rest: "handleCommands join cs u1 reg1 = (r, u', reg')" by simp
    from Cons.IH [OF rest] obtain new2 where
      f2: "extensionFolderPath u' = extensionFolderPath u1" "frozen reg' = frozen reg1"
      and n2: "reg' = reg1\<lparr>items := items reg1 @ new2\<rparr>" "prefix new2 (entries join u1 cs)"
        "r = None \<longrightarrow> new2 = entries join u1 cs"
      by blast
    have c: "entries join u1 cs = entries join u cs" using f1(1) by (rule entries_cong)
    have new1: "new1 = entries join u [c]" using None n1(3) by simp
    have "reg' = reg\<lparr>items := items reg @ (new1 @ new2)\<rparr>" using n1(1) n2(1) by simp
    moreover have "prefix (new1 @ new2) (entries join u (c # cs))"
      unfolding split new1 using n2(2) c by simp
    moreover have "r = None \<longrightarrow> new1 @ new2 = entries join u (c # cs)"
      unfolding split new1 using n2(3) c by simp
    ultimately show ?thesis using f1 f2 by auto
  qed
qed

lemma handleCommands_returns:
  "\<not> frozen reg \<Longrightarrow> \<forall>c\<in>set cs. \<not> throws join u c \<Longrightarrow>
     fst (handleCommands join cs u reg) = None"
proof (induction cs arbitrary: u reg)
  case Nil
  then show ?case by simp
next
  case (Cons c cs)
  obtain r1 u1 reg1 where h: "handleCommand join c u reg = (r1, u1, reg1)"
    by (cases "handleCommand join c u reg") auto
  have r1: "r1 = None" using handleCommand_returns [of reg join u c] Cons.prems h by simp
  have "\<not> frozen reg1" using handleCommand_general [OF h] Cons.prems(1) by simp
  moreover have "\<forall>c\<in>set cs. \<not> throws join u1 c"
    using Cons.prems(2) throws_cong [of join u1 _ u] by simp
  ultimately have "fst (handleCommands join cs u1 reg1) = None" by (rule Cons.IH)
  with h r1 show ?case by simp
qed

lemma handleCommands_append:
  "handleCommands join (xs @ ys) u reg =
     (case handleCommands join xs u reg of
        (Some e, u', reg') \<Rightarrow> (Some e, u', reg')
      | (None, u', reg') \<Rightarrow> handleCommands join ys u' reg')"
  by (induction xs arbitrary: u reg) (auto split: prod.splits option.splits)

lemma handleExtension_general:
  assumes "handleExtension join x reg = (r, x', reg')"
  shows "frozen reg' = frozen reg
    \<and> (\<exists>new. reg' = reg\<lparr>items := items reg @ new\<rparr>
          \<and> prefix new (entries join x (candidates_of x))
          \<and> (r = None \<longrightarrow> new = entries join x (candidates_of x)))"
proof (cases "isArray (declared x)")
  case True
  with assms have "handleCommands join (candidates_of x) x reg = (r, x', reg')"
    by (simp add: handleExtension_def candidates_of_def)
  from handleCommands_general [OF this] show ?thesis by blast
next
  case False
  with assms have "handleCommand join (declared x) x reg = (r, x', reg')"
    by (simp add: handleExtension_def)
  from handleCommand_general [OF this] False show ?thesis
    by (simp add: candidates_of_def)
qed

lemma handleExtension_returns:
  assumes "\<not> frozen reg" and "\<forall>c\<in>set (candidates_of x). \<not> throws join x c"
  shows "fst (handleExtension join x reg) = None"
proof (cases "isArray (declared x)")
  case True
  then show ?thesis
    using assms handleCommands_returns [of reg "candidates_of x" join x]
    by (simp add: handleExtension_def candidates_of_def)
next
  case False
  then show ?thesis
    using assms handleCommand_returns [of reg join x "declared x"]
    by (simp add: handleExtension_def candidates_of_def)
qed

lemma handleExtensions_general:
  "handleExtensions join xs reg = (r, xs', reg') \<Longrightarrow>
   frozen reg' = frozen reg
    \<and> (\<exists>new. reg' = reg\<lparr>items := items reg @ new\<rparr> \<and> prefix new (all_entries join xs)
          \<and> (r = None \<longrightarrow> new = all_entries join xs))"
proof (induction xs arbitrary: reg r xs' reg')
  case Nil
  then show ?case by (simp add: all_entries_def)
next
  case (Cons x xs)
  obtain r1 x1 reg1 where h: "handleExtension join x reg = (r1, x1, reg1)"
    by (cases "handleExtension join x reg") auto
  from handleExtension_general [OF h] obtain new1 where
    f1: "frozen reg1 = frozen reg"
    and n1: "reg1 = reg\<lparr>items := items reg @ new1\<rparr>"
      "prefix new1 (entries join x (candidates_of x))"
      "r1 = None \<longrightarrow> new1 = entries join x (candidates_of x)"
    by blast
  have split: "all_entries join (x # xs) = entries join x (candidates_of x) @ all_entries join xs"
    by (simp add: all_entries_def)
  show ?case
  proof (cases r1)
    case (Some e)
    with h Cons.prems have "r = Some e" "reg' = reg1" by auto
    with f1 n1 show ?thesis
      unfolding split by (auto intro: prefix_order.trans)
  next
    case None
    obtain r2 xs2 reg2 where rest: "handleExtensions join xs reg1 = (r2, xs2, reg2)"
      by (cases "handleExtensions join xs reg1") auto
    with None h Cons.prems have eq: "r = r2" "reg' = reg2" by auto
    from Cons.IH [OF rest] obtain new2 where
      f2: "frozen reg2 = frozen reg1"
      and n2: "reg2 = reg1\<lparr>items := items reg1 @ new2\<rparr>" "prefix new2 (all_entries join xs)"
        "r2 = None \<longrightarrow> new2 = all_entries join xs"
      by blast
    have new1: "new1 = entries join x (candidates_of x)" using None n1(3) by simp
    have "reg' = reg\<lparr>items := items reg @ (new1 @ new2)\<rparr>" using n1(1) n2(1) eq by simp
    moreover have "prefix (new1 @ new2) (all_entries join (x # xs))"
      unfolding split new1 using n2(2) by simp
    moreover have "r = None \<longrightarrow> new1 @ new2 = all_entries join (x # xs)"
      unfolding split new1 using n2(3) eq by simp
    ultimately show ?thesis using f1 f2 eq by auto
  qed
qed

lemma handleExtensions_returns:
  "\<not> frozen reg \<Longrightarrow> \<forall>x\<in>set xs. \<forall>c\<in>set (candidates_of x). \<not> throws join x c \<Longrightarrow>
     fst (handleExtensions join xs reg) = None"
proof (induction xs arbitrary: reg)
  case Nil
  then show ?case by simp
next
  case (Cons x xs)
  obtain r1 x1 reg1 where h: "handleExtension join x reg = (r1, x1, reg1)"
    by (cases "handleExtension join x reg") auto
  have r1: "r1 = None"
    using handleExtension_returns [of reg x join] Cons.prems h by simp
  have "\<not> frozen reg1" using handleExtension_general [OF h] Cons.prems(1) by simp
  moreover have "\<forall>x\<in>set xs. \<forall>c\<in>set (candidates_of x). \<not> throws join x c"
    using Cons.prems(2) by simp
  ultimately have "fst (handleExtensions join xs reg1) = None" by (rule Cons.IH)
  with h r1 show ?case by (auto split: prod.splits)
qed

lemma handler_general:
  assumes "handler join xs reg = (r, xs', reg')"
  shows "\<exists>new. items reg' = items reg @ new \<and> prefix new (all_entries join xs)
          \<and> (r = None \<longrightarrow> new = all_entries join xs \<and> frozen reg')"
proof -
  obtain r1 xs1 reg1 where h: "handleExtensions join xs reg = (r1, xs1, reg1)"
    by (cases "handleExtensions join xs reg") auto
  from handleExtensions_general [OF h] obtain new where
    n: "reg1 = reg\<lparr>items := items reg @ new\<rparr>" "prefix new (all_entries join xs)"
      "r1 = None \<longrightarrow> new = all_entries join xs"
    by blast
  show ?thesis
  proof (cases r1)
    case None
    with h assms have "r = None" "reg' = freeze reg1" by (auto simp: handler_def)
    with n None show ?thesis by (auto simp: freeze_def)
  next
    case (Some e)
    with h assms have "r = Some e" "reg' = reg1" by (auto simp: handler_def)
    with n show ?thesis by auto
  qed
qed

lemma attempt_pushes_frozen: "frozen reg \<Longrightarrow> attempt_pushes reg cs = reg"
  unfolding attempt_pushes_def
  by (induction cs) (simp_all add: attempt_push_def push_def)

text \<open>
  Whatever way the handler ends, the registry holds what it held before followed by a
  prefix of \<open>all_entries\<close>. When the registry is not yet frozen and no candidate makes
  \<^verbatim>\<open>isValidCommand\<close> throw, the handler returns, and the registry is then frozen and
  holds what it held followed by exactly \<open>all_entries\<close>.
\<close>

lemma handler_without_throw:
  "(\<forall>r exts' reg'. handler join exts reg = (r, exts', reg') \<longrightarrow>
       (\<exists>new. items reg' = items reg @ new \<and> prefix new (all_entries join exts)))
   \<and> (\<not> frozen reg \<and> (\<forall>x\<in>set exts. \<forall>c\<in>set (candidates_of x). \<not> throws join x c) \<longrightarrow>
       (\<exists>exts'. handler join exts reg
          = (None, exts', \<lparr>items = items reg @ all_entries join exts, frozen = True\<rparr>)))"
proof (intro conjI allI impI)
  fix r exts' reg'
  assume "handler join exts reg = (r, exts', reg')"
  from handler_general [OF this]
  show "\<exists>new. items reg' = items reg @ new \<and> prefix new (all_entries join exts)" by blast
next
  assume a: "\<not> frozen reg \<and> (\<forall>x\<in>set exts. \<forall>c\<in>set (candidates_of x). \<not> throws join x c)"
  obtain r1 xs1 reg1 where h: "handleExtensions join exts reg = (r1, xs1, reg1)"
    by (cases "handleExtensions join exts reg") auto
  have r1: "r1 = None" using handleExtensions_returns [of reg exts join] a h by simp
  from handleExtensions_general [OF h] r1
  have "reg1 = reg\<lparr>items := items reg @ all_entries join exts\<rparr>" by auto
  then have "freeze reg1 = \<lparr>items = items reg @ all_entries join exts, frozen = True\<rparr>"
    by (simp add: freeze_def)
  with h r1 show "\<exists>exts'. handler join exts reg
          = (None, exts', \<lparr>items = items reg @ all_entries join exts, frozen = True\<rparr>)"
    by (simp add: handler_def)
qed

subsection \<open>The handler on the example batches\<close>

lemma eval_handler:
  "handler example_join [acme (JArr [foo_bar, missing_id]) []] commands_initial
      = (None, [acme (JArr [foo_bar, missing_id]) [msg_requirestring ''command'']],
         \<lparr>items = [foo_bar], frozen = True\<rparr>)"
  by (simp add: handler_def handleExtension_def handleCommand_def isValidCommand_eq
      make_icon_absolute_def isThemableIcon_def push_def freeze_def commands_initial_def
      collector_error_def)

lemma eval_example_batch:
  "handler example_join example_batch commands_initial
     = (None,
        [acme (JArr [foo_bar, missing_id, ext_go (JStr ''icons/go.png'')])
           [msg_requirestring ''command''],
         beta beta_run []],
        \<lparr>items = [foo_bar, ext_go (JStr ''/ext/acme/icons/go.png''), beta_run], frozen = True\<rparr>)"
  by (simp add: handler_def handleExtension_def handleCommand_def isValidCommand_eq
      make_icon_absolute_def isThemableIcon_def push_def freeze_def commands_initial_def
      collector_error_def)

section \<open>The claims\<close>

subsection \<open>C1: values of \<^verbatim>\<open>where\<close> outside the three locations\<close>

text \<open>
  C1 says that a candidate whose \<^verbatim>\<open>where\<close> is, or contains at any depth of nested
  arrays, a value outside \<^verbatim>\<open>editor/primary\<close>, \<^verbatim>\<open>editor/secondary\<close>, \<^verbatim>\<open>explorer/context\<close>
  makes \<^verbatim>\<open>isValidCommand\<close> return false with the message about \<^verbatim>\<open>where\<close>. The source
  defines \<^verbatim>\<open>isValidWhere\<close> for this and never calls it. What the code does: on the
  candidates below, with \<^verbatim>\<open>where\<close> the unknown \<^verbatim>\<open>editor/bogus\<close>, alone or nested in arrays,
  \<^verbatim>\<open>isValidCommand\<close> returns true, leaves the candidate as it is and reports nothing,
  for every \<^verbatim>\<open>join\<close> and every user; \<^verbatim>\<open>isValidWhere\<close> on the same values returns false
  and reports the message about \<^verbatim>\<open>where\<close> once.
\<close>

theorem isValidCommand_ignores_where:
  "isValidCommand join
     (JObj [(''command'', JStr ''ext.go''), (''title'', JStr ''Go''),
            (''where'', JStr ''editor/bogus'')]) u
   = Inr (True,
       JObj [(''command'', JStr ''ext.go''), (''title'', JStr ''Go''),
             (''where'', JStr ''editor/bogus'')], u)
   \<and> isValidWhere (JStr ''editor/bogus'') u
       = (False, u\<lparr>collector := collector u @ [msg_optwhere]\<rparr>)
   \<and> isValidCommand join
     (JObj [(''command'', JStr ''ext.go''), (''title'', JStr ''Go''),
            (''where'', JArr [JStr ''editor/primary'', JArr [JStr ''editor/bogus'']])]) u
   = Inr (True,
       JObj [(''command'', JStr ''ext.go''), (''title'', JStr ''Go''),
             (''where'', JArr [JStr ''editor/primary'', JArr [JStr ''editor/bogus'']])], u)
   \<and> isValidWhere (JArr [JStr ''editor/primary'', JArr [JStr ''editor/bogus'']]) u
       = (False, u\<lparr>collector := collector u @ [msg_optwhere]\<rparr>)"
  by (simp add: isValidCommand_eq make_icon_absolute_def isThemableIcon_def locations_def
      collector_error_def)

subsection \<open>C2: the check of \<^verbatim>\<open>when\<close>\<close>

text \<open>
  C2 says that a candidate whose \<^verbatim>\<open>when\<close> is absent, or is neither a string nor a
  structured value nor a sequence whose every element validates, makes
  \<^verbatim>\<open>isValidCommand\<close> return false with the message that \<^verbatim>\<open>when\<close> is mandatory. The
  source defines \<^verbatim>\<open>isValidWhen\<close> for this and never calls it. What the code does: on the
  candidates below, with \<^verbatim>\<open>when\<close> the number \<^verbatim>\<open>5\<close>, alone or in a sequence after a string,
  \<^verbatim>\<open>isValidCommand\<close> returns true, leaves the candidate as it is and reports nothing,
  for every \<^verbatim>\<open>join\<close> and every user; \<^verbatim>\<open>isValidWhen\<close> on the same values returns false
  and reports the message about \<^verbatim>\<open>when\<close> once.
\<close>

theorem isValidCommand_ignores_when:
  "isValidCommand join
     (JObj [(''command'', JStr ''ext.go''), (''title'', JStr ''Go''),
            (''when'', JNum (Finite 5))]) u
   = Inr (True,
       JObj [(''command'', JStr ''ext.go''), (''title'', JStr ''Go''),
             (''when'', JNum (Finite 5))], u)
   \<and> isValidWhen (JNum (Finite 5)) u
       = (False, u\<lparr>collector := collector u @ [msg_requirefilter]\<rparr>)
   \<and> isValidCommand join
     (JObj [(''command'', JStr ''ext.go''), (''title'', JStr ''Go''),
            (''when'', JArr [JStr ''go'', JNum (Finite 5)])]) u
   = Inr (True,
       JObj [(''command'', JStr ''ext.go''), (''title'', JStr ''Go''),
             (''when'', JArr [JStr ''go'', JNum (Finite 5)])], u)
   \<and> isValidWhen (JArr [JStr ''go'', JNum (Finite 5)]) u
       = (False, u\<lparr>collector := collector u @ [msg_requirefilter]\<rparr>)"
  by (simp add: isValidCommand_eq make_icon_absolute_def isThemableIcon_def
      collector_error_def)

subsection \<open>C3: the registry after a batch\<close>

text \<open>
  C3 says that after every batch the registry holds exactly the candidates for which
  \<^verbatim>\<open>isValidCommand\<close> returns true, in arrival order within and across extensions. What
  the code does on the batch below, where the first extension declares
  \<^verbatim>\<open>[{command: "foo.bar", title: "Bar"}, {command: "ext.go", title: "Go", icon: null}]\<close> and
  the second declares \<^verbatim>\<open>{command: "beta.run", title: "Run"}\<close>: \<^verbatim>\<open>isValidIcon\<close> reads
  \<^verbatim>\<open>icon.dark\<close> of the \<^verbatim>\<open>null\<close> icon and throws, where \<^verbatim>\<open>isThemableIcon\<close> stops at
  \<^verbatim>\<open>null\<close>; the exception ends the handler, for every \<^verbatim>\<open>join\<close>. The registry is left
  with the first candidate only and is not frozen, and no message is collected, although
  \<^verbatim>\<open>isValidCommand\<close> returns true for the candidate of the second extension, which is
  therefore among \<open>all_entries\<close> and missing from the registry.
\<close>

theorem handler_aborts_on_null_icon:
  "isValidCommand join (ext_go JNull) (acme (JArr [foo_bar, ext_go JNull]) []) = Inl TypeError
   \<and> isThemableIcon JNull = False
   \<and> handler join [acme (JArr [foo_bar, ext_go JNull]) [], beta beta_run []] commands_initial
       = (Some TypeError,
          [acme (JArr [foo_bar, ext_go JNull]) [], beta beta_run []],
          \<lparr>items = [foo_bar], frozen = False\<rparr>)
   \<and> isValidCommand join beta_run (beta beta_run []) = Inr (True, beta_run, beta beta_run [])
   \<and> all_entries join [acme (JArr [foo_bar, ext_go JNull]) [], beta beta_run []]
       = [foo_bar, beta_run]"
  by (simp add: handler_def handleExtension_def handleCommand_def isValidCommand_eq
      make_icon_absolute_def isThemableIcon_def push_def commands_initial_def
      all_entries_def entries_def candidates_of_def map_filter_simps accepted_def)

subsection \<open>C4: the registry after the freeze\<close>

text \<open>
  C4. When the handler has returned, the registry is frozen: every later \<^verbatim>\<open>push\<close> throws,
  and after any sequence of attempted pushes the registry, hence its content, is what it
  was when the handler returned.
\<close>

theorem frozen_registry_keeps_content:
  assumes "handler join exts reg = (None, exts', reg')"
  shows "frozen reg' \<and> push reg' c = Inl TypeError
    \<and> attempt_pushes reg' cs = reg' \<and> items (attempt_pushes reg' cs) = items reg'"
proof -
  have "frozen reg'" using handler_general [OF assms] by auto
  then show ?thesis by (simp add: attempt_pushes_frozen push_def)
qed

theorem frozen_registry_keeps_content_witness:
  "handler example_join example_batch commands_initial
     = (None,
        [acme (JArr [foo_bar, missing_id, ext_go (JStr ''icons/go.png'')])
           [msg_requirestring ''command''],
         beta beta_run []],
        \<lparr>items = [foo_bar, ext_go (JStr ''/ext/acme/icons/go.png''), beta_run], frozen = True\<rparr>)
   \<and> items (attempt_pushes
        \<lparr>items = [foo_bar, ext_go (JStr ''/ext/acme/icons/go.png''), beta_run], frozen = True\<rparr>
        [beta_run, foo_bar, JNull])
     = [foo_bar, ext_go (JStr ''/ext/acme/icons/go.png''), beta_run]"
  using frozen_registry_keeps_content [OF eval_example_batch, of beta_run "[beta_run, foo_bar, JNull]"]
    eval_example_batch
  by simp

subsection \<open>C5: icon paths\<close>

text \<open>
  C5. When \<^verbatim>\<open>isValidCommand\<close> returns true for a candidate of an extension with folder
  \<open>R\<close>: a string icon \<open>p\<close> has become \<open>join R p\<close>; an icon with string members \<^verbatim>\<open>dark\<close>
  \<open>d\<close> and \<^verbatim>\<open>light\<close> \<open>l\<close> has them become \<open>join R d\<close> and \<open>join R l\<close>; a candidate without
  icon is as it was.
\<close>

theorem icon_paths_made_absolute:
  assumes "isValidCommand join c u = Inr (True, c', u')"
  shows "(\<forall>p. property c ''icon'' = JStr p \<longrightarrow>
            property c' ''icon'' = JStr (join (extensionFolderPath u) p))
   \<and> (\<forall>d l. property (property c ''icon'') ''dark'' = JStr d
            \<and> property (property c ''icon'') ''light'' = JStr l \<longrightarrow>
            property (property c' ''icon'') ''dark'' = JStr (join (extensionFolderPath u) d)
            \<and> property (property c' ''icon'') ''light'' = JStr (join (extensionFolderPath u) l))
   \<and> (property c ''icon'' = JUndefined \<longrightarrow> c' = c)"
proof -
  have c': "c' = make_icon_absolute join c u"
    using assms isValidCommand_outcomes [of join c u] by auto
  have "typeof (property c ''command'') = ''string''"
    using assms by (auto simp: isValidCommand_eq split: if_splits)
  then obtain fs where c: "c = JObj fs"
    by (cases c) auto
  have 1: "property c' ''icon'' = JStr (join (extensionFolderPath u) p)"
    if "property c ''icon'' = JStr p" for p
    using that unfolding c' c by (simp add: make_icon_absolute_def update_conv')
  have 2: "property (property c' ''icon'') ''dark'' = JStr (join (extensionFolderPath u) d)
            \<and> property (property c' ''icon'') ''light'' = JStr (join (extensionFolderPath u) l)"
    if d: "property (property c ''icon'') ''dark'' = JStr d"
      and l: "property (property c ''icon'') ''light'' = JStr l" for d l
  proof -
    obtain gs where i: "property c ''icon'' = JObj gs"
      using truthy_property_obj [of "property c ''icon''" "''dark''"] d by auto
    have "isThemableIcon (property c ''icon'')"
      using d l i by (simp add: isThemableIcon_def)
    then show ?thesis
      using d l i unfolding c' c
      by (simp add: make_icon_absolute_def Let_def update_conv' split: option.splits)
  qed
  have 3: "c' = c" if "property c ''icon'' = JUndefined"
    using that unfolding c' by (simp add: make_icon_absolute_def isThemableIcon_def)
  show ?thesis using 1 2 3 by blast
qed

theorem icon_paths_made_absolute_witness:
  "isValidCommand example_join (ext_go (JStr ''icons/go.png'')) (acme JNull [])
     = Inr (True, ext_go (JStr ''/ext/acme/icons/go.png''), acme JNull [])
   \<and> property (ext_go (JStr ''/ext/acme/icons/go.png'')) ''icon'' = JStr ''/ext/acme/icons/go.png''
   \<and> isValidCommand example_join
        (ext_go (JObj [(''dark'', JStr ''d.svg''), (''light'', JStr ''l.svg'')])) (acme JNull [])
     = Inr (True,
         ext_go (JObj [(''dark'', JStr ''/ext/acme/d.svg''), (''light'', JStr ''/ext/acme/l.svg'')]),
         acme JNull [])
   \<and> isValidCommand example_join foo_bar (acme JNull []) = Inr (True, foo_bar, acme JNull [])"
proof -
  have 1: "isValidCommand example_join (ext_go (JStr ''icons/go.png'')) (acme JNull [])
     = Inr (True, ext_go (JStr ''/ext/acme/icons/go.png''), acme JNull [])"
    by (simp add: isValidCommand_eq make_icon_absolute_def)
  have 2: "isValidCommand example_join
        (ext_go (JObj [(''dark'', JStr ''d.svg''), (''light'', JStr ''l.svg'')])) (acme JNull [])
     = Inr (True,
         ext_go (JObj [(''dark'', JStr ''/ext/acme/d.svg''), (''light'', JStr ''/ext/acme/l.svg'')]),
         acme JNull [])"
    by (simp add: isValidCommand_eq make_icon_absolute_def isThemableIcon_def)
  have 3: "isValidCommand example_join foo_bar (acme JNull []) = Inr (True, foo_bar, acme JNull [])"
    by (simp add: isValidCommand_eq make_icon_absolute_def isThemableIcon_def)
  show ?thesis
    using 1 2 3 icon_paths_made_absolute [OF 1] icon_paths_made_absolute [OF 2]
      icon_paths_made_absolute [OF 3]
    by simp
qed

subsection \<open>C6: activation before dispatch\<close>

text \<open>
  C6. An invocation of the action first calls the activation service for the event
  \<^verbatim>\<open>onCommand:\<close> followed by the command id. If the promise it returns fails, the promise
  of the invocation fails with the same error and the command service is not called. If
  it completes, the command service is called next, with the id and the arguments of the
  invocation, and its promise (or the error it throws) is the outcome of the invocation.
  In every case the command service is called at most once, after the activation service,
  and only if activation has completed.
\<close>

theorem activation_before_dispatch:
  "(activateByEvent (''onCommand:'' @ command) = Inr (Rejected e) \<longrightarrow>
      actionCallback activateByEvent executeCommand command args calls
        = (Inr (Rejected e), calls @ [ActivateByEvent (''onCommand:'' @ command)]))
   \<and> (activateByEvent (''onCommand:'' @ command) = Inr (Fulfilled x) \<longrightarrow>
      actionCallback activateByEvent executeCommand command args calls
        = (Inr (case executeCommand command args of Inl thrown \<Rightarrow> Rejected thrown | Inr p \<Rightarrow> p),
           calls @ [ActivateByEvent (''onCommand:'' @ command), ExecuteCommand command args]))
   \<and> (snd (actionCallback activateByEvent executeCommand command args calls)
          = calls @ [ActivateByEvent (''onCommand:'' @ command)]
        \<or> (\<exists>y. activateByEvent (''onCommand:'' @ command) = Inr (Fulfilled y))
          \<and> snd (actionCallback activateByEvent executeCommand command args calls)
            = calls @ [ActivateByEvent (''onCommand:'' @ command), ExecuteCommand command args])"
proof -
  let ?ev = "''onCommand:'' @ command"
  show ?thesis
  proof (cases "activateByEvent ?ev")
    case (Inl thrown)
    then show ?thesis by (simp add: actionCallback_def)
  next
    case (Inr p)
    then show ?thesis
      by (cases p; cases "executeCommand command args") (simp_all add: actionCallback_def)
  qed
qed

theorem activation_before_dispatch_witness:
  "actionCallback (\<lambda>ev. Inr (Rejected (JStr ''activation failed'')))
      (\<lambda>c args. Inr (Fulfilled (JStr ''done''))) ''ext.go'' [] []
     = (Inr (Rejected (JStr ''activation failed'')), [ActivateByEvent ''onCommand:ext.go''])
   \<and> actionCallback (\<lambda>ev. Inr (Fulfilled ()))
      (\<lambda>c args. Inr (Rejected (JStr ''no handler''))) ''ext.go'' [JNum (Finite 1)] []
     = (Inr (Rejected (JStr ''no handler'')),
        [ActivateByEvent ''onCommand:ext.go'', ExecuteCommand ''ext.go'' [JNum (Finite 1)]])
   \<and> actionCallback (\<lambda>ev. Inr (Fulfilled ()))
      (\<lambda>c args. Inr (Fulfilled (JStr ''done''))) ''ext.go'' [JNum (Finite 1)] []
     = (Inr (Fulfilled (JStr ''done'')),
        [ActivateByEvent ''onCommand:ext.go'', ExecuteCommand ''ext.go'' [JNum (Finite 1)]])"
  using activation_before_dispatch [where activateByEvent = "\<lambda>ev. Inr (Rejected (JStr ''activation failed''))"
      and command = "''ext.go''" and e = "JStr ''activation failed''"
      and executeCommand = "\<lambda>c args. Inr (Fulfilled (JStr ''done''))" and args = "[]" and calls = "[]"]
    activation_before_dispatch [where activateByEvent = "\<lambda>ev. Inr (Fulfilled ())"
      and command = "''ext.go''"
      and executeCommand = "\<lambda>c args. Inr (Rejected (JStr ''no handler''))"
      and args = "[JNum (Finite 1)]" and calls = "[]"]
    activation_before_dispatch [where activateByEvent = "\<lambda>ev. Inr (Fulfilled ())"
      and command = "''ext.go''"
      and executeCommand = "\<lambda>c args. Inr (Fulfilled (JStr ''done''))"
      and args = "[JNum (Finite 1)]" and calls = "[]"]
  by simp

subsection \<open>C7: well-typed candidates are accepted\<close>



subsection \<open>C8: a candidate without a string \<^verbatim>\<open>command\<close>\<close>

text \<open>
  C8, as amended. For a candidate that passes the first check (a truthy value: not
  \<^verbatim>\<open>null\<close>, \<^verbatim>\<open>undefined\<close>, \<^verbatim>\<open>false\<close>, \<^verbatim>\<open>0\<close>, \<^verbatim>\<open>NaN\<close> or the empty string; every object
  is truthy) and whose \<^verbatim>\<open>command\<close> is missing or not a string, \<^verbatim>\<open>isValidCommand\<close>
  returns false, leaves the candidate as it is and adds exactly one message to the
  collector, which mentions \<^verbatim>\<open>command\<close>. In the loop over the candidates of an
  extension, such a candidate at any position leaves the registry as it is and the loop
  goes on with the candidates after it; in particular a sibling that \<^verbatim>\<open>isValidCommand\<close>
  accepts is registered, whether it comes before or after.
\<close>

theorem command_not_string_rejected:
  assumes "truthy c" and "typeof (property c ''command'') \<noteq> ''string''"
  shows "isValidCommand join c u
       = Inr (False, c, u\<lparr>collector := collector u @ [msg_requirestring ''command'']\<rparr>)
    \<and> mentions ''command'' (msg_requirestring ''command'')
    \<and> (\<forall>pre post u1 reg1. handleCommands join pre u reg = (None, u1, reg1) \<longrightarrow>
          handleCommands join (pre @ c # post) u reg
            = handleCommands join post
                (u1\<lparr>collector := collector u1 @ [msg_requirestring ''command'']\<rparr>) reg1)
    \<and> (\<forall>v v'. \<not> frozen reg \<and> accepted join u v = Some v' \<longrightarrow>
          handleCommands join [c, v] u reg
            = (None, u\<lparr>collector := collector u @ [msg_requirestring ''command'']\<rparr>,
               reg\<lparr>items := items reg @ [v']\<rparr>)
          \<and> handleCommands join [v, c] u reg
            = (None, u\<lparr>collector := collector u @ [msg_requirestring ''command'']\<rparr>,
               reg\<lparr>items := items reg @ [v']\<rparr>))"
proof (intro conjI allI impI)
  show "isValidCommand join c u
       = Inr (False, c, u\<lparr>collector := collector u @ [msg_requirestring ''command'']\<rparr>)"
    using assms by (simp add: isValidCommand_command_not_string collector_error_def)
  show "mentions ''command'' (msg_requirestring ''command'')"
    by (simp add: msg_requirestring_def)
next
  fix pre post u1 reg1
  assume "handleCommands join pre u reg = (None, u1, reg1)"
  then show "handleCommands join (pre @ c # post) u reg
            = handleCommands join post
                (u1\<lparr>collector := collector u1 @ [msg_requirestring ''command'']\<rparr>) reg1"
    using assms
    by (simp add: handleCommands_append handleCommand_command_not_string collector_error_def)
next
  fix v v'
  assume a: "\<not> frozen reg \<and> accepted join u v = Some v'"
  let ?u = "u\<lparr>collector := collector u @ [msg_requirestring ''command'']\<rparr>"
  have "accepted join ?u v = Some v'"
    using a accepted_cong [of ?u u join v] by simp
  then show "handleCommands join [c, v] u reg = (None, ?u, reg\<lparr>items := items reg @ [v']\<rparr>)"
    using assms a
    by (simp add: handleCommand_command_not_string handleCommand_accepted collector_error_def)
  show "handleCommands join [v, c] u reg = (None, ?u, reg\<lparr>items := items reg @ [v']\<rparr>)"
    using assms a
    by (simp add: handleCommand_command_not_string handleCommand_accepted collector_error_def)
qed

text \<open>
  The end-to-end example of the specification: the batch of one extension declaring
  \<^verbatim>\<open>[{command: "foo.bar", title: "Bar"}, {title: "missing id"}]\<close>.
\<close>

theorem command_not_string_rejected_witness:
  "truthy missing_id \<and> typeof (property missing_id ''command'') \<noteq> ''string''
   \<and> isValidCommand example_join missing_id (acme (JArr [foo_bar, missing_id]) [])
       = Inr (False, missing_id,
              acme (JArr [foo_bar, missing_id]) [msg_requirestring ''command''])
   \<and> handleCommands example_join [foo_bar, missing_id]
        (acme (JArr [foo_bar, missing_id]) []) commands_initial
       = (None, acme (JArr [foo_bar, missing_id]) [msg_requirestring ''command''],
          \<lparr>items = [foo_bar], frozen = False\<rparr>)
   \<and> handler example_join [acme (JArr [foo_bar, missing_id]) []] commands_initial
       = (None, [acme (JArr [foo_bar, missing_id]) [msg_requirestring ''command'']],
          \<lparr>items = [foo_bar], frozen = True\<rparr>)"
proof -
  have t: "truthy missing_id" by simp
  have n: "typeof (property missing_id ''command'') \<noteq> ''string''" by simp
  have a: "accepted example_join (acme (JArr [foo_bar, missing_id]) []) foo_bar = Some foo_bar"
    by (simp add: accepted_def isValidCommand_eq make_icon_absolute_def isThemableIcon_def)
  have o: "\<not> frozen commands_initial" by (simp add: commands_initial_def)
  show ?thesis
    using command_not_string_rejected [OF t n, of example_join
        "acme (JArr [foo_bar, missing_id]) []" commands_initial] a o eval_handler
    by (simp add: commands_initial_def)
qed

text \<open>
  The claim as it was stated fails at the candidate \<^verbatim>\<open>null\<close>, as in a manifest with
  \<^verbatim>\<open>"commands": [null]\<close>: it has no \<^verbatim>\<open>command\<close>, and the one message reported is that
  of the first check, which does not mention \<^verbatim>\<open>command\<close>.
\<close>

theorem empty_candidate_counterexample:
  "isValidCommand example_join JNull (acme (JArr [JNull]) [])
       = Inr (False, JNull, acme (JArr [JNull]) [''expected non-empty value.''])
   \<and> \<not> mentions ''command'' ''expected non-empty value.''"
  by (simp add: isValidCommand_eq collector_error_def msg_nonempty_def)

subsection \<open>C9: a \<^verbatim>\<open>category\<close> that is not a string\<close>

text \<open>
  C9, as amended. The test is \<^verbatim>\<open>candidate.category && typeof candidate.category !== 'string'\<close>:
  a candidate whose \<^verbatim>\<open>category\<close> is truthy (not \<^verbatim>\<open>undefined\<close>, \<^verbatim>\<open>null\<close>, \<^verbatim>\<open>false\<close>, \<^verbatim>\<open>0\<close>,
  \<^verbatim>\<open>NaN\<close> or the empty string) and not a string is rejected, and when its \<^verbatim>\<open>command\<close>
  and \<^verbatim>\<open>title\<close> are strings the one message reported is the one that cites
  \<^verbatim>\<open>category\<close>.
\<close>

theorem category_truthy_not_string_rejected:
  assumes "truthy (property c ''category'')"
    and "typeof (property c ''category'') \<noteq> ''string''"
  shows "(\<exists>u'. isValidCommand join c u = Inr (False, c, u'))
   \<and> (typeof (property c ''command'') = ''string'' \<and> typeof (property c ''title'') = ''string'' \<longrightarrow>
        isValidCommand join c u
          = Inr (False, c, u\<lparr>collector := collector u @ [msg_optstring ''category'']\<rparr>))
   \<and> mentions ''category'' (msg_optstring ''category'')"
proof -
  have "truthy c" using assms(1) by (rule property_truthy)
  then show ?thesis
    using assms by (simp add: isValidCommand_eq collector_error_def msg_optstring_def)
qed

theorem category_truthy_not_string_rejected_witness:
  "truthy (property (JObj [(''command'', JStr ''ext.go''), (''title'', JStr ''Go''),
       (''category'', JNum (Finite 5))]) ''category'')
   \<and> typeof (property (JObj [(''command'', JStr ''ext.go''), (''title'', JStr ''Go''),
       (''category'', JNum (Finite 5))]) ''category'') \<noteq> ''string''
   \<and> isValidCommand example_join
        (JObj [(''command'', JStr ''ext.go''), (''title'', JStr ''Go''), (''category'', JNum (Finite 5))])
        (acme JNull [])
     = Inr (False,
         JObj [(''command'', JStr ''ext.go''), (''title'', JStr ''Go''), (''category'', JNum (Finite 5))],
         acme JNull [msg_optstring ''category''])"
proof -
  let ?c = "JObj [(''command'', JStr ''ext.go''), (''title'', JStr ''Go''),
       (''category'', JNum (Finite 5))]"
  have t: "truthy (property ?c ''category'')" by simp
  have n: "typeof (property ?c ''category'') \<noteq> ''string''" by simp
  show ?thesis
    using t n category_truthy_not_string_rejected [OF t n, of example_join "acme JNull []"]
    by simp
qed

text \<open>
  The claim as it was stated fails at \<^verbatim>\<open>{command: "ext.go", title: "Go", category: false}\<close>:
  the category is present and not a string, and \<^verbatim>\<open>isValidCommand\<close> returns true and
  reports nothing.
\<close>

theorem category_false_counterexample:
  "property (JObj [(''command'', JStr ''ext.go''), (''title'', JStr ''Go''), (''category'', JBool False)])
      ''category'' = JBool False
   \<and> isValidCommand example_join
        (JObj [(''command'', JStr ''ext.go''), (''title'', JStr ''Go''), (''category'', JBool False)])
        (acme JNull [])
      = Inr (True,
          JObj [(''command'', JStr ''ext.go''), (''title'', JStr ''Go''), (''category'', JBool False)],
          acme JNull [])"
  by (simp add: isValidCommand_eq make_icon_absolute_def isThemableIcon_def)

subsection \<open>C10: what \<^verbatim>\<open>isValidCommand\<close> leaves unchanged\<close>

text \<open>
  C10. When \<^verbatim>\<open>isValidCommand\<close> returns false the candidate is as it was; when it returns
  true every property of the candidate other than \<^verbatim>\<open>icon\<close> is as it was.
\<close>

theorem isValidCommand_frame:
  "(isValidCommand join c u = Inr (False, c', u') \<longrightarrow> c' = c)
   \<and> (isValidCommand join c u = Inr (True, c', u') \<longrightarrow>
        (\<forall>k. k \<noteq> ''icon'' \<longrightarrow> property c' k = property c k))"
  using isValidCommand_outcomes [of join c u]
  by (auto simp: make_icon_absolute_other)

theorem isValidCommand_frame_witness:
  "isValidCommand example_join missing_id (acme JNull [])
     = Inr (False, missing_id, acme JNull [msg_requirestring ''command''])
   \<and> isValidCommand example_join (ext_go (JStr ''icons/go.png'')) (acme JNull [])
     = Inr (True, ext_go (JStr ''/ext/acme/icons/go.png''), acme JNull [])
   \<and> property (ext_go (JStr ''/ext/acme/icons/go.png'')) ''title''
     = property (ext_go (JStr ''icons/go.png'')) ''title''"
proof -
  have 1: "isValidCommand example_join missing_id (acme JNull [])
     = Inr (False, missing_id, acme JNull [msg_requirestring ''command''])"
    by (simp add: isValidCommand_eq collector_error_def)
  have 2: "isValidCommand example_join (ext_go (JStr ''icons/go.png'')) (acme JNull [])
     = Inr (True, ext_go (JStr ''/ext/acme/icons/go.png''), acme JNull [])"
    by (simp add: isValidCommand_eq make_icon_absolute_def)
  show ?thesis
    using 1 2
      isValidCommand_frame [of example_join missing_id "acme JNull []" missing_id
        "acme JNull [msg_requirestring ''command'']"]
      isValidCommand_frame [of example_join "ext_go (JStr ''icons/go.png'')" "acme JNull []"
        "ext_go (JStr ''/ext/acme/icons/go.png'')" "acme JNull []"]
    by simp
qed

end
